theory Spec2Isabelle
  imports Complex_Main "HOL-Library.Word"
begin

unbundle bit_operations_syntax

section \<open>JavaScript numbers and values\<close>

text \<open>
  A JavaScript Number is an IEEE-754 double. The model keeps its special values apart:
  the two zeros, the two infinities and NaN. A finite double is idealised as the real
  number it denotes (\<open>Num x\<close>; \<open>Num 0\<close> is \<open>+0\<close>): rounding of results and overflow of
  finite results to an infinity are not modelled. Everything else follows the
  language's rules for \<open>+\<close>, \<open>*\<close>, \<open>/\<close> and unary \<open>-\<close> on Numbers.
\<close>

datatype jsnum = Num real | NegZero | PosInf | NegInf | NaN

datatype jsval = Undefined | Number jsnum

text \<open>ToNumber: \<open>undefined\<close> converts to NaN.\<close>

fun ToNumber :: "jsval \<Rightarrow> jsnum" where
  "ToNumber Undefined = NaN"
| "ToNumber (Number n) = n"

fun is_zero :: "jsnum \<Rightarrow> bool" where
  "is_zero (Num x) = (x = 0)"
| "is_zero NegZero = True"
| "is_zero _ = False"

fun is_inf :: "jsnum \<Rightarrow> bool" where
  "is_inf PosInf = True"
| "is_inf NegInf = True"
| "is_inf _ = False"

text \<open>The sign bit (\<open>True\<close> for negative); NaN has none that matters.\<close>

fun is_neg :: "jsnum \<Rightarrow> bool" where
  "is_neg (Num x) = (x < 0)"
| "is_neg NegZero = True"
| "is_neg NegInf = True"
| "is_neg _ = False"

fun real_of :: "jsnum \<Rightarrow> real" where
  "real_of (Num x) = x"
| "real_of _ = 0"

fun signed_zero :: "bool \<Rightarrow> jsnum" where
  "signed_zero True = NegZero"
| "signed_zero False = Num 0"

fun signed_inf :: "bool \<Rightarrow> jsnum" where
  "signed_inf True = NegInf"
| "signed_inf False = PosInf"

text \<open>The sign of a product or quotient: negative when exactly one operand is.\<close>

definition sign_xor :: "jsnum \<Rightarrow> jsnum \<Rightarrow> bool" where
  "sign_xor a b = (if is_neg a then (if is_neg b then False else True) else is_neg b)"

text \<open>Unary minus flips the sign bit.\<close>

fun js_neg :: "jsnum \<Rightarrow> jsnum" where
  "js_neg (Num x) = (if x = 0 then NegZero else Num (- x))"
| "js_neg NegZero = Num 0"
| "js_neg PosInf = NegInf"
| "js_neg NegInf = PosInf"
| "js_neg NaN = NaN"

text \<open>
  Addition: NaN is contagious; opposite infinities give NaN; \<open>-0 + -0\<close> is \<open>-0\<close> and
  every other zero sum is \<open>+0\<close>.
\<close>

definition js_add :: "jsnum \<Rightarrow> jsnum \<Rightarrow> jsnum" where
  "js_add a b =
     (if a = NaN \<or> b = NaN then NaN
      else if is_inf a then (if is_inf b then (if a = b then a else NaN) else a)
      else if is_inf b then b
      else if a = NegZero then b
      else if b = NegZero then a
      else Num (real_of a + real_of b))"

text \<open>Multiplication: an infinity times a zero is NaN; zeros and infinities are signed.\<close>

definition js_mul :: "jsnum \<Rightarrow> jsnum \<Rightarrow> jsnum" where
  "js_mul a b =
     (if a = NaN \<or> b = NaN then NaN
      else if is_inf a \<or> is_inf b then
        (if is_zero a \<or> is_zero b then NaN else signed_inf (sign_xor a b))
      else if is_zero a \<or> is_zero b then signed_zero (sign_xor a b)
      else Num (real_of a * real_of b))"

text \<open>
  Division never raises: a non-zero number over a zero is a signed infinity, \<open>0 / 0\<close> and
  \<open>Infinity / Infinity\<close> are NaN.
\<close>

definition js_div :: "jsnum \<Rightarrow> jsnum \<Rightarrow> jsnum" where
  "js_div a b =
     (if a = NaN \<or> b = NaN then NaN
      else if is_inf a then (if is_inf b then NaN else signed_inf (sign_xor a b))
      else if is_inf b then signed_zero (sign_xor a b)
      else if is_zero b then (if is_zero a then NaN else signed_inf (sign_xor a b))
      else if is_zero a then signed_zero (sign_xor a b)
      else Num (real_of a / real_of b))"

text \<open>The numeric value of a finite Number (both zeros denote 0); none for the rest.\<close>

fun num_val :: "jsnum \<Rightarrow> real option" where
  "num_val (Num x) = Some x"
| "num_val NegZero = Some 0"
| "num_val _ = None"

text \<open>Truncation of a real toward zero, as an integer.\<close>

definition trunc_int :: "real \<Rightarrow> int" where
  "trunc_int x = (if 0 \<le> x then \<lfloor>x\<rfloor> else \<lceil>x\<rceil>)"

text \<open>
  \<open>Math.trunc\<close>: drops the fractional digits; NaN, the infinities and the zeros are
  returned as they are, and a negative number above \<open>-1\<close> becomes \<open>-0\<close>.
\<close>

fun Math_trunc :: "jsnum \<Rightarrow> jsnum" where
  "Math_trunc (Num x) =
     (if x < 0 \<and> trunc_int x = 0 then NegZero else Num (of_int (trunc_int x)))"
| "Math_trunc v = v"

text \<open>
  ToInt32, the conversion applied by the bitwise operators: NaN, zeros and infinities
  become 0; any other number is truncated toward zero and reduced modulo \<open>2^32\<close> into
  the signed 32-bit range.
\<close>

fun ToInt32 :: "jsnum \<Rightarrow> 32 word" where
  "ToInt32 (Num x) = word_of_int (trunc_int x)"
| "ToInt32 _ = 0"

text \<open>\<open>v | 0\<close>: both operands through ToInt32, bitwise or, back to a Number.\<close>

definition bitor_zero :: "jsnum \<Rightarrow> jsnum" where
  "bitor_zero v = Num (of_int (sint (ToInt32 v OR ToInt32 (Num 0))))"

text \<open>
  \<open>Math.min\<close> of two Numbers: NaN if either is NaN, and \<open>-0\<close> counts as smaller than
  \<open>+0\<close>.
\<close>

fun js_less :: "jsnum \<Rightarrow> jsnum \<Rightarrow> bool" where
  "js_less NaN _ = False"
| "js_less _ NaN = False"
| "js_less PosInf _ = False"
| "js_less _ NegInf = False"
| "js_less _ PosInf = True"
| "js_less NegInf _ = True"
| "js_less a b = (real_of a < real_of b)"

definition Math_min :: "jsnum \<Rightarrow> jsnum \<Rightarrow> jsnum" where
  "Math_min a b =
     (if a = NaN \<or> b = NaN then NaN
      else if js_less a b then a
      else if js_less b a then b
      else if a = NegZero then a else b)"

text \<open>Reading an array element: an index past the end gives \<open>undefined\<close>.\<close>

definition elem_at :: "jsval list \<Rightarrow> nat \<Rightarrow> jsval" where
  "elem_at xs i = (if i < length xs then xs ! i else Undefined)"

section \<open>The coordinate transform\<close>

text \<open>
  \<^verbatim>\<open>function transform(a, b, M, roundToInt = false) {
    const round = (v) => (roundToInt ? Math.trunc(v) : v);
    return [round(M[0] + M[1] * a + M[2] * b), round(M[3] + M[4] * a + M[5] * b)];
  }\<close>
  (src/js/three.js). The arithmetic converts each matrix entry with ToNumber.
\<close>

definition transform :: "jsnum \<Rightarrow> jsnum \<Rightarrow> jsval list \<Rightarrow> bool \<Rightarrow> jsnum \<times> jsnum" where
  "transform a b M roundToInt =
     (let round = (\<lambda>v. if roundToInt then Math_trunc v else v);
          m = (\<lambda>i. ToNumber (elem_at M i))
      in (round (js_add (js_add (m 0) (js_mul (m 1) a)) (js_mul (m 2) b)),
          round (js_add (js_add (m 3) (js_mul (m 4) a)) (js_mul (m 5) b))))"

text \<open>
  The earlier variant of the file rounds with a bitwise or:
  \<^verbatim>\<open>const round = (v) => (roundToInt ? v | 0 : v);\<close>
\<close>

definition transform_bitor :: "jsnum \<Rightarrow> jsnum \<Rightarrow> jsval list \<Rightarrow> bool \<Rightarrow> jsnum \<times> jsnum" where
  "transform_bitor a b M roundToInt =
     (let round = (\<lambda>v. if roundToInt then bitor_zero v else v);
          m = (\<lambda>i. ToNumber (elem_at M i))
      in (round (js_add (js_add (m 0) (js_mul (m 1) a)) (js_mul (m 2) b)),
          round (js_add (js_add (m 3) (js_mul (m 4) a)) (js_mul (m 5) b))))"

section \<open>Deriving the affine matrices from the raster's tags\<close>

text \<open>
  The errors of the model. The source itself can fail with the TypeError of the
  language (destructuring a value that is not iterable, reading a property of
  \<open>undefined\<close>), and it passes on what a call of the decoding library throws
  (\<open>LibraryError\<close>, with the library's message); \<open>InvalidMetadata\<close> and
  \<open>DegenerateTransform\<close> are the error kinds the specification names.
\<close>

datatype error = TypeError | LibraryError string | InvalidMetadata | DegenerateTransform

text \<open>
  The two georeferencing tags as the destructuring sees them: the elements of the array
  when the tag is an array, and \<open>None\<close> when it is a value that cannot be destructured.
\<close>

record fileDirectory =
  ModelPixelScale :: "jsval list option"
  ModelTiepoint :: "jsval list option"

text \<open>
  The part of \<open>loadMethaneAssets\<close> that builds the two matrices:
  \<^verbatim>\<open>const { ModelPixelScale: s, ModelTiepoint: t } = image.fileDirectory;
  let [sx, sy, sz] = s;
  let [px, py, k, gx, gy, gz] = t;
  sy = -sy; // WGS-84 tiles have a "flipped" y component
  const pixelToGPS = [gx, sx, 0, gy, 0, sy];
  const gpsToPixel = [-gx / sx, 1 / sx, 0, -gy / sy, 0, 1 / sy];\<close>
  Destructuring a value that is not iterable throws a TypeError; a position past the
  end of an array binds \<open>undefined\<close>. The result of the model is the pair
  \<open>(pixelToGPS, gpsToPixel)\<close> that these lines build and log; the rest of the function
  is in \<open>loadMethaneAssets_promise\<close> below.
\<close>

definition loadMethaneAssets :: "fileDirectory \<Rightarrow> error + (jsval list \<times> jsval list)" where
  "loadMethaneAssets fd =
     (case ModelPixelScale fd of
        None \<Rightarrow> Inl TypeError
      | Some s \<Rightarrow>
         (case ModelTiepoint fd of
            None \<Rightarrow> Inl TypeError
          | Some t \<Rightarrow>
             (let sx = elem_at s 0; sy = elem_at s 1;
                  gx = elem_at t 3; gy = elem_at t 4;
                  sy = Number (js_neg (ToNumber sy));
                  pixelToGPS = [gx, sx, Number (Num 0), gy, Number (Num 0), sy];
                  gpsToPixel =
                    [Number (js_div (js_neg (ToNumber gx)) (ToNumber sx)),
                     Number (js_div (Num 1) (ToNumber sx)),
                     Number (Num 0),
                     Number (js_div (js_neg (ToNumber gy)) (ToNumber sy)),
                     Number (Num 0),
                     Number (js_div (Num 1) (ToNumber sy))]
              in Inr (pixelToGPS, gpsToPixel))))"

text \<open>
  What \<open>image.fileDirectory\<close> holds for a tag: \<open>undefined\<close> when the file has no
  such tag, a bare number when the tag has a single value (the decoding library unpacks
  it), and an array of the values otherwise.
\<close>

datatype tag = Absent | Scalar jsnum | Values "jsval list"

text \<open>
  Array destructuring iterates its right-hand side: an array gives its elements;
  \<open>undefined\<close> and a number are not iterable.
\<close>

fun destructurable :: "tag \<Rightarrow> jsval list option" where
  "destructurable Absent = None"
| "destructurable (Scalar v) = None"
| "destructurable (Values xs) = Some xs"

text \<open>
  The decoded image that \<open>getImage()\<close> hands to the function: its two tags, and the
  outcome of its method \<open>getBoundingBox()\<close>, which belongs to the decoding library and
  either throws an error with a message or returns an array.
\<close>

record image =
  PixelScaleTag :: tag
  TiepointTag :: tag
  getBoundingBox :: "string + jsnum list"

text \<open>
  The asynchronous function from the decoded image to the settling of its promise:
  \<^verbatim>\<open>const image = await this.testasset.getImage();
  const { ModelPixelScale: s, ModelTiepoint: t } = image.fileDirectory;
  ... (the two matrices, as above)
  const [gx1, gy1, gx2, gy2] = image.getBoundingBox();
  const lat = lerp(gy1, gy2, Math.random());
  const long = lerp(gx1, gx2, Math.random());
  console.log(...);\<close>
  The promise is rejected with the TypeError of a destructuring, or with what
  \<open>getBoundingBox\<close> throws; otherwise it is fulfilled, and the result of the model is
  the pair of matrices that was logged. The source has no \<open>try\<close> and no check of its
  own. The interpolation and the console output after the call cannot throw and are
  outside the model, as are fetching and decoding the file.
\<close>

definition loadMethaneAssets_promise :: "image \<Rightarrow> error + (jsval list \<times> jsval list)" where
  "loadMethaneAssets_promise img =
     (case loadMethaneAssets
             \<lparr>ModelPixelScale = destructurable (PixelScaleTag img),
              ModelTiepoint = destructurable (TiepointTag img)\<rparr> of
        Inl e \<Rightarrow> Inl e
      | Inr matrices \<Rightarrow>
         (case getBoundingBox img of
            Inl message \<Rightarrow> Inl (LibraryError message)
          | Inr box \<Rightarrow> Inr matrices))"

section \<open>The renderer and the offscreen texture\<close>

text \<open>
  The objects of the scene graphs, by identity, and the offscreen render target with its
  pixel dimensions. A render-target binding of \<open>None\<close> is \<open>null\<close>: the canvas.
\<close>

datatype node = Camera | AmbientLight | PlaneMesh | MethaneMesh | TexturePlane

datatype render_target = WebGLRenderTarget nat nat

datatype texture = TargetTexture render_target | LoadedTexture string

text \<open>
  The state of the WebGL renderer that the class touches: the surface size, the pixel
  ratio, the active render target, and a log of what was drawn (the target bound at the
  draw and the objects drawn) and of what was cleared.
\<close>

record gl_renderer =
  surface_size :: "jsnum \<times> jsnum"
  pixelRatio :: jsnum
  currentRenderTarget :: "render_target option"
  draws :: "(render_target option \<times> node list) list"
  clears :: "render_target option list"

definition setSize :: "jsnum \<Rightarrow> jsnum \<Rightarrow> gl_renderer \<Rightarrow> gl_renderer" where
  "setSize w h r = r\<lparr>surface_size := (w, h)\<rparr>"

definition setPixelRatio :: "jsnum \<Rightarrow> gl_renderer \<Rightarrow> gl_renderer" where
  "setPixelRatio v r = r\<lparr>pixelRatio := v\<rparr>"

definition getRenderTarget :: "gl_renderer \<Rightarrow> render_target option" where
  "getRenderTarget r = currentRenderTarget r"

definition setRenderTarget :: "render_target option \<Rightarrow> gl_renderer \<Rightarrow> gl_renderer" where
  "setRenderTarget t r = r\<lparr>currentRenderTarget := t\<rparr>"

text \<open>\<open>renderer.render(scene, camera)\<close> draws into the target that is bound.\<close>

definition render_scene :: "node list \<Rightarrow> gl_renderer \<Rightarrow> gl_renderer" where
  "render_scene objs r = r\<lparr>draws := draws r @ [(currentRenderTarget r, objs)]\<rparr>"

definition clear :: "gl_renderer \<Rightarrow> gl_renderer" where
  "clear r = r\<lparr>clears := clears r @ [currentRenderTarget r]\<rparr>"

text \<open>
  \<^verbatim>\<open>generateTexture() {
    const resolution = 2000;
    const textureScene = new T.Scene();
    const renderTarget = new T.WebGLRenderTarget(resolution, resolution / 2);
    ...
    textureScene.add(plane);
    const orig = this.renderer.getRenderTarget();
    this.renderer.setRenderTarget(renderTarget);
    this.renderer.render(textureScene, textureCamera);
    this.renderer.setRenderTarget(orig);
    this.renderer.clear();
    return renderTarget.texture;
  }\<close>
\<close>

definition generateTexture :: "gl_renderer \<Rightarrow> gl_renderer \<times> texture" where
  "generateTexture r =
     (let resolution = 2000;
          textureScene = [TexturePlane];
          renderTarget = WebGLRenderTarget resolution (resolution div 2);
          orig = getRenderTarget r;
          r = setRenderTarget (Some renderTarget) r;
          r = render_scene textureScene r;
          r = setRenderTarget orig r;
          r = clear r
      in (r, TargetTexture renderTarget))"

text \<open>
  The earlier variant adds nothing to the texture scene and never rebinds the target:
  \<^verbatim>\<open>const renderTarget = new T.WebGLRenderTarget(resolution, resolution);
  this.renderer.render(textureScene, textureCamera, renderTarget);
  return renderTarget.texture;\<close>
  \<open>render\<close> takes a scene and a camera; the third argument is not a parameter of the
  renderer of the version the package pins (three 0.157) and is dropped.
\<close>

definition generateTexture_unbound :: "gl_renderer \<Rightarrow> gl_renderer \<times> texture" where
  "generateTexture_unbound r =
     (let resolution = 2000;
          textureScene = [];
          renderTarget = WebGLRenderTarget resolution resolution;
          r = render_scene textureScene r
      in (r, TargetTexture renderTarget))"

section \<open>The visualisation class\<close>

text \<open>The \<open>layers\<close> object: one boolean per declared layer.\<close>

record layer_flags =
  earth :: bool
  methane :: bool
  cow :: bool
  someCrop :: bool

text \<open>The names of the declared layers, in the order of the object literal.\<close>

definition declared_layers :: "string list" where
  "declared_layers = [''earth'', ''methane'', ''cow'', ''someCrop'']"

record material =
  texture_map :: "texture option"
  transparent :: bool
  opacity :: real

record mesh =
  geometry :: "real \<times> real"
  mesh_material :: material
  visible :: bool

text \<open>
  \<open>new T.MeshBasicMaterial({ map })\<close> is opaque; \<open>new T.Mesh(geometry, material)\<close> is
  visible.
\<close>

definition MeshBasicMaterial :: "texture option \<Rightarrow> material" where
  "MeshBasicMaterial m = \<lparr>texture_map = m, transparent = False, opacity = 1\<rparr>"

definition Mesh :: "real \<times> real \<Rightarrow> material \<Rightarrow> mesh" where
  "Mesh g m = \<lparr>geometry = g, mesh_material = m, visible = True\<rparr>"

text \<open>
  A control registered with the panel: its folder, the property it is bound to, and the
  bounds passed at registration, if any.
\<close>

record controller =
  folder :: string
  property :: string
  bounds :: "(real \<times> real) option"

text \<open>
  The fields of a \<open>Three\<close> object, with the module-level \<open>device\<close> object it reads and
  writes, the number of callbacks it has handed to \<open>requestAnimationFrame\<close> and the
  number of resize listeners it has installed. A field that has not been assigned yet
  is \<open>None\<close>.
\<close>

record three =
  device_width :: jsnum
  device_height :: jsnum
  device_pixelRatio :: jsnum
  scene :: "node list"
  camera_aspect :: jsnum
  renderer :: gl_renderer
  gui :: "controller list"
  earthtex :: "texture option"
  scaleX :: jsnum
  scaleY :: jsnum
  scaleZ :: jsnum
  layers :: layer_flags
  planeMesh :: "mesh option"
  methaneMesh :: "mesh option"
  methaneTexture :: "texture option"
  animation_frames :: nat
  resize_listeners :: nat

text \<open>
  \<open>new T.WebGLRenderer(...)\<close>: nothing bound, nothing drawn; the size is the default of
  a canvas until \<open>setSize\<close> is called.
\<close>

definition WebGLRenderer :: gl_renderer where
  "WebGLRenderer =
     \<lparr>surface_size = (Num 300, Num 150), pixelRatio = Num 1,
      currentRenderTarget = None, draws = [], clears = []\<rparr>"

text \<open>
  \<^verbatim>\<open>setup_params() {
    this.scaleX = 1; this.scaleY = 1; this.scaleZ = 1;
    this.layers = { earth: true, methane: true, cow: true, someCrop: true };
  }\<close>
\<close>

definition setup_params :: "three \<Rightarrow> three" where
  "setup_params s =
     s\<lparr>scaleX := Num 1, scaleY := Num 1, scaleZ := Num 1,
       layers := \<lparr>earth = True, methane = True, cow = True, someCrop = True\<rparr>\<rparr>"

text \<open>
  \<^verbatim>\<open>renderUI() {
    var f1 = this.gui.addFolder('Scale');
    f1.add(this, 'scaleX', 0.1, 5); f1.add(this, 'scaleY', 0.1, 5); f1.add(this, 'scaleZ', 0.1, 5);
    var layersFolder = this.gui.addFolder('Layer');
    layersFolder.add(this.layers, 'earth'); layersFolder.add(this.layers, 'methane');
    layersFolder.add(this.layers, 'cow'); layersFolder.add(this.layers, 'someCrop');
  }\<close>
  The panel is a library outside the repository; the model records what is registered.
\<close>

definition renderUI :: "three \<Rightarrow> three" where
  "renderUI s =
     s\<lparr>gui := gui s @
       [\<lparr>folder = ''Scale'', property = ''scaleX'', bounds = Some (0.1, 5)\<rparr>,
        \<lparr>folder = ''Scale'', property = ''scaleY'', bounds = Some (0.1, 5)\<rparr>,
        \<lparr>folder = ''Scale'', property = ''scaleZ'', bounds = Some (0.1, 5)\<rparr>,
        \<lparr>folder = ''Layer'', property = ''earth'', bounds = None\<rparr>,
        \<lparr>folder = ''Layer'', property = ''methane'', bounds = None\<rparr>,
        \<lparr>folder = ''Layer'', property = ''cow'', bounds = None\<rparr>,
        \<lparr>folder = ''Layer'', property = ''someCrop'', bounds = None\<rparr>]\<rparr>"

definition setLights :: "three \<Rightarrow> three" where
  "setLights s = s\<lparr>scene := scene s @ [AmbientLight]\<rparr>"

definition loadAssets :: "three \<Rightarrow> three" where
  "loadAssets s = s\<lparr>earthtex := Some (LoadedTexture ''src/assets/8081_earthmap10k.jpg'')\<rparr>"

text \<open>
  \<^verbatim>\<open>setGeometry() {
    this.planeGeometry = new T.PlaneGeometry(10_000, 1);
    this.planeMaterial = new T.MeshBasicMaterial({ map: this.earthtex });
    this.planeMesh = new T.Mesh(this.planeGeometry, this.planeMaterial);
    this.scene.add(this.planeMesh);
    this.methaneGeometry = new T.PlaneGeometry(2, 1);
    this.methaneTexture = this.generateTexture();
    this.methaneMaterial = new T.MeshBasicMaterial({ map: this.methaneTexture });
    this.methaneMaterial.transparent = true;
    this.methaneMaterial.opacity = 0.5;
    this.methaneMesh = new T.Mesh(this.methaneGeometry, this.methaneMaterial);
    this.scene.add(this.methaneMesh);
  }\<close>
\<close>

definition setGeometry :: "three \<Rightarrow> three" where
  "setGeometry s =
     (let planeMaterial = MeshBasicMaterial (earthtex s);
          s = s\<lparr>planeMesh := Some (Mesh (10000, 1) planeMaterial)\<rparr>;
          s = s\<lparr>scene := scene s @ [PlaneMesh]\<rparr>;
          (r, tex) = generateTexture (renderer s);
          s = s\<lparr>renderer := r, methaneTexture := Some tex\<rparr>;
          methaneMaterial = MeshBasicMaterial (methaneTexture s);
          methaneMaterial = methaneMaterial\<lparr>transparent := True, opacity := 0.5\<rparr>;
          s = s\<lparr>methaneMesh := Some (Mesh (2, 1) methaneMaterial)\<rparr>
      in s\<lparr>scene := scene s @ [MethaneMesh]\<rparr>)"

text \<open>
  Whether an object of the main scene is drawn: a mesh when its \<open>visible\<close> flag is set;
  the camera and the light have no flag that the class writes.
\<close>

fun shown :: "three \<Rightarrow> node \<Rightarrow> bool" where
  "shown s PlaneMesh = (case planeMesh s of Some m \<Rightarrow> visible m | None \<Rightarrow> False)"
| "shown s MethaneMesh = (case methaneMesh s of Some m \<Rightarrow> visible m | None \<Rightarrow> False)"
| "shown s _ = True"

text \<open>
  One tick of the render loop:
  \<^verbatim>\<open>render() {
    const elapsedTime = this.clock.getElapsedTime();
    this.planeMesh.visible = this.layers.earth;
    this.methaneMesh.visible = this.layers.methane;
    this.renderer.render(this.scene, this.camera);
    requestAnimationFrame(this.render.bind(this));
  }\<close>
  Writing \<open>visible\<close> on a mesh that is still \<open>undefined\<close> throws a TypeError. The elapsed
  time is read and not used. The tick ends by scheduling the next one; the model counts
  the request and returns.
\<close>

definition render :: "three \<Rightarrow> error + three" where
  "render s =
     (case planeMesh s of
        None \<Rightarrow> Inl TypeError
      | Some pm \<Rightarrow>
         (let s = s\<lparr>planeMesh := Some (pm\<lparr>visible := earth (layers s)\<rparr>)\<rparr>
          in case methaneMesh s of
               None \<Rightarrow> Inl TypeError
             | Some mm \<Rightarrow>
                (let s = s\<lparr>methaneMesh := Some (mm\<lparr>visible := methane (layers s)\<rparr>)\<rparr>;
                     s = s\<lparr>renderer := render_scene (filter (shown s) (scene s)) (renderer s)\<rparr>
                 in Inr (s\<lparr>animation_frames := Suc (animation_frames s)\<rparr>))))"

definition setResize :: "three \<Rightarrow> three" where
  "setResize s = s\<lparr>resize_listeners := Suc (resize_listeners s)\<rparr>"

text \<open>
  \<^verbatim>\<open>onResize() {
    device.width = window.innerWidth;
    device.height = window.innerHeight;
    this.camera.aspect = device.width / device.height;
    this.camera.updateProjectionMatrix();
    this.renderer.setSize(device.width, device.height);
    this.renderer.setPixelRatio(Math.min(device.pixelRatio, 2));
  }\<close>
  The window's inner size at the event is the input.
\<close>

definition onResize :: "jsnum \<Rightarrow> jsnum \<Rightarrow> three \<Rightarrow> three" where
  "onResize innerWidth innerHeight s =
     (let s = s\<lparr>device_width := innerWidth\<rparr>;
          s = s\<lparr>device_height := innerHeight\<rparr>;
          s = s\<lparr>camera_aspect := js_div (device_width s) (device_height s)\<rparr>;
          s = s\<lparr>renderer := setSize (device_width s) (device_height s) (renderer s)\<rparr>
      in s\<lparr>renderer := setPixelRatio (Math_min (device_pixelRatio s) (Num 2)) (renderer s)\<rparr>)"

text \<open>
  The constructor, given the \<open>device\<close> object read from the window when the module
  loads. The class-field initialisers run first (\<open>scaleX = 1\<close>, ..., \<open>layers = {...}\<close>);
  then the scene, the camera and the renderer are created and the methods called in
  the order of the source. \<open>loadMethaneAssets()\<close> is started and not awaited; it
  assigns nothing that the other methods read.
\<close>

definition constructor :: "jsnum \<Rightarrow> jsnum \<Rightarrow> jsnum \<Rightarrow> error + three" where
  "constructor width height ratio =
     (let s = \<lparr>device_width = width, device_height = height, device_pixelRatio = ratio,
               scene = [], camera_aspect = js_div width height,
               renderer = WebGLRenderer, gui = [], earthtex = None,
               scaleX = Num 1, scaleY = Num 1, scaleZ = Num 1,
               layers = \<lparr>earth = True, methane = True, cow = True, someCrop = True\<rparr>,
               planeMesh = None, methaneMesh = None, methaneTexture = None,
               animation_frames = 0, resize_listeners = 0\<rparr>;
          s = s\<lparr>scene := scene s @ [Camera]\<rparr>;
          s = s\<lparr>renderer := setSize (device_width s) (device_height s) (renderer s)\<rparr>;
          s = s\<lparr>renderer :=
                  setPixelRatio (Math_min (device_pixelRatio s) (Num 2)) (renderer s)\<rparr>;
          s = loadAssets s;
          s = setup_params s;
          s = renderUI s;
          s = setLights s;
          s = setGeometry s
      in case render s of Inl e \<Rightarrow> Inl e | Inr s \<Rightarrow> Inr (setResize s))"

text \<open>The meshes among the objects of the main scene.\<close>

fun is_mesh :: "node \<Rightarrow> bool" where
  "is_mesh PlaneMesh = True"
| "is_mesh MethaneMesh = True"
| "is_mesh TexturePlane = True"
| "is_mesh _ = False"

definition scene_meshes :: "three \<Rightarrow> node list" where
  "scene_meshes s = filter is_mesh (scene s)"

section \<open>Example inputs\<close>

text \<open>
  A raster with pixel scale \<open>(0.01, 0.01, 0)\<close> and tie point \<open>(0, 0, 0, -100, 40, 0)\<close>.
\<close>

definition example_directory :: fileDirectory where
  "example_directory =
     \<lparr>ModelPixelScale = Some [Number (Num 0.01), Number (Num 0.01), Number (Num 0)],
      ModelTiepoint = Some [Number (Num 0), Number (Num 0), Number (Num 0),
                            Number (Num (- 100)), Number (Num 40), Number (Num 0)]\<rparr>"

text \<open>The same raster with a horizontal pixel scale of zero.\<close>

definition zero_scale_directory :: fileDirectory where
  "zero_scale_directory =
     \<lparr>ModelPixelScale = Some [Number (Num 0), Number (Num 0.01), Number (Num 0)],
      ModelTiepoint = Some [Number (Num 0), Number (Num 0), Number (Num 0),
                            Number (Num (- 100)), Number (Num 40), Number (Num 0)]\<rparr>"

text \<open>
  Decoded images: the raster of the example with the bounding box of a 1000 by 1000
  image; the same with no pixel-scale tag; and the same with a pixel-scale tag of a
  single value.
\<close>

definition example_image :: image where
  "example_image =
     \<lparr>PixelScaleTag = Values [Number (Num 0.01), Number (Num 0.01), Number (Num 0)],
      TiepointTag = Values [Number (Num 0), Number (Num 0), Number (Num 0),
                            Number (Num (- 100)), Number (Num 40), Number (Num 0)],
      getBoundingBox = Inr [Num (- 100), Num 30, Num (- 90), Num 40]\<rparr>"

definition no_scale_image :: image where
  "no_scale_image =
     \<lparr>PixelScaleTag = Absent,
      TiepointTag = Values [Number (Num 0), Number (Num 0), Number (Num 0),
                            Number (Num (- 100)), Number (Num 40), Number (Num 0)],
      getBoundingBox = Inl ''The image does not have an affine transformation.''\<rparr>"

definition single_scale_image :: image where
  "single_scale_image =
     \<lparr>PixelScaleTag = Scalar (Num 0.01),
      TiepointTag = Values [Number (Num 0), Number (Num 0), Number (Num 0),
                            Number (Num (- 100)), Number (Num 40), Number (Num 0)],
      getBoundingBox = Inr [NaN, NaN, NaN, NaN]\<rparr>"

text \<open>The matrix of the identity map: \<open>(a, b)\<close> goes to \<open>(a, b)\<close>.\<close>

definition identity_matrix :: "jsval list" where
  "identity_matrix =
     [Number (Num 0), Number (Num 1), Number (Num 0),
      Number (Num 0), Number (Num 0), Number (Num 1)]"

text \<open>
  The object constructed on an 800 by 600 window of pixel ratio 1, and the layer flags
  with only \<open>cow\<close> switched off.
\<close>

definition example_three :: three where
  "example_three = projr (constructor (Num 800) (Num 600) (Num 1))"

definition cow_off :: layer_flags where
  "cow_off = \<lparr>earth = True, methane = True, cow = False, someCrop = True\<rparr>"

section \<open>The forward transform\<close>

text \<open>Negation is exact: it flips the sign and keeps the magnitude.\<close>

lemma num_val_neg: "num_val a = Some x \<Longrightarrow> num_val (js_neg a) = Some (- x)"
  by (cases a; auto)

text \<open>
  C2. For the raster with pixel scale \<open>(0.01, 0.01, 0)\<close> and tie point
  \<open>(0, 0, 0, -100, 40, 0)\<close>, the forward matrix that \<open>loadMethaneAssets\<close> builds, with
  the sign of \<open>sy\<close> flipped, maps pixel \<open>(0, 0)\<close> to \<open>(-100, 40)\<close> and pixel
  \<open>(1000, 1000)\<close> to \<open>(-90, 30)\<close>.
\<close>

theorem end_to_end:
  "\<exists>pixelToGPS gpsToPixel.
     loadMethaneAssets example_directory = Inr (pixelToGPS, gpsToPixel) \<and>
     transform (Num 0) (Num 0) pixelToGPS False = (Num (- 100), Num 40) \<and>
     transform (Num 1000) (Num 1000) pixelToGPS False = (Num (- 90), Num 30)"
  by (simp add: example_directory_def loadMethaneAssets_def elem_at_def transform_def
      js_add_def js_mul_def sign_xor_def)

section \<open>Rounding to integers\<close>

text \<open>Truncation moves toward zero by less than one and keeps the sign.\<close>

lemma trunc_int_toward_zero:
  "\<bar>of_int (trunc_int x)\<bar> \<le> \<bar>x\<bar> \<and> \<bar>x\<bar> - \<bar>of_int (trunc_int x)\<bar> < (1::real) \<and>
   (0 \<le> x \<longrightarrow> 0 \<le> trunc_int x) \<and> (x \<le> 0 \<longrightarrow> trunc_int x \<le> 0)"
  unfolding trunc_int_def by (auto; linarith)

text \<open>
  With \<open>roundToInt\<close> set, the current \<open>transform\<close> applies \<open>Math.trunc\<close> to each
  component, and \<open>Math.trunc\<close> of a finite number is its truncation toward zero,
  whatever the magnitude.
\<close>

lemma transform_truncates:
  "transform a b M True =
     (Math_trunc (fst (transform a b M False)), Math_trunc (snd (transform a b M False)))"
  by (simp add: transform_def Let_def)

lemma Math_trunc_value: "num_val (Math_trunc (Num x)) = Some (of_int (trunc_int x))"
  by simp

text \<open>
  The bitwise variant agrees with truncation as long as the truncated value fits into 32
  signed bits.
\<close>

lemma bitor_zero_in_range:
  assumes "- (2 ^ 31) - 1 < x" "x < 2 ^ 31"
  shows "bitor_zero (Num x) = Num (of_int (trunc_int x))"
proof -
  have "- (2 ^ 31) \<le> trunc_int x \<and> trunc_int x < 2 ^ 31"
    using assms unfolding trunc_int_def by (auto; linarith)
  then have "sint (word_of_int (trunc_int x) :: 32 word) = trunc_int x"
    by (simp add: sint_sbintrunc' signed_take_bit_int_eq_self)
  moreover have "ToInt32 (Num 0) = 0"
    by (simp add: trunc_int_def)
  ultimately show ?thesis
    unfolding bitor_zero_def by (simp only: ToInt32.simps or.right_neutral)
qed

text \<open>
  C6. With \<open>roundToInt\<close> set, \<open>transform\<close> is to truncate each component toward zero
  for all inputs, in every variant. On the point \<open>(3000000000, -2.5)\<close> under the
  identity matrix the variant that rounds with \<open>v | 0\<close> returns \<open>-1294967296\<close> for the
  first component, where truncation gives \<open>3000000000\<close>, as the variant that rounds
  with \<open>Math.trunc\<close> does.
\<close>

theorem bitor_wraps:
  "transform_bitor (Num 3000000000) (Num (- 2.5)) identity_matrix True
     = (Num (- 1294967296), Num (- 2)) \<and>
   transform (Num 3000000000) (Num (- 2.5)) identity_matrix True
     = (Num 3000000000, Num (- 2))"
  by (simp add: transform_bitor_def transform_def identity_matrix_def elem_at_def
        js_add_def js_mul_def sign_xor_def bitor_zero_def trunc_int_def)

section \<open>Degenerate and malformed tags\<close>

lemma div_by_zero:
  "num_val a = Some x \<Longrightarrow> is_zero b \<Longrightarrow>
   js_div a b = (if x = 0 then NaN else signed_inf (sign_xor a b))"
  by (cases a; cases b; auto simp: js_div_def)

lemma is_inf_signed_inf: "is_inf (signed_inf s)"
  by (cases s) simp_all

text \<open>No path of \<open>loadMethaneAssets\<close> produces either error kind of the specification.\<close>

lemma no_specified_error:
  "loadMethaneAssets fd \<noteq> Inl DegenerateTransform \<and>
   loadMethaneAssets fd \<noteq> Inl InvalidMetadata"
  by (simp add: loadMethaneAssets_def Let_def split: option.splits)

text \<open>
  C7 as stated fails: with \<open>sx = 0\<close> the derivation returns its two matrices, and the
  inverse holds \<open>Infinity\<close> where it divides by \<open>sx\<close>.
\<close>

theorem degenerate_counterexample:
  "loadMethaneAssets zero_scale_directory =
     Inr ([Number (Num (- 100)), Number (Num 0), Number (Num 0),
           Number (Num 40), Number (Num 0), Number (Num (- 0.01))],
          [Number PosInf, Number PosInf, Number (Num 0),
           Number (Num 4000), Number (Num 0), Number (Num (- 100))])"
  by (simp add: zero_scale_directory_def loadMethaneAssets_def elem_at_def Let_def
        js_div_def sign_xor_def)

text \<open>
  C7, amended. When the tags carry finite numbers and \<open>sx\<close> (or \<open>sy\<close>) is zero, deriving
  the inverse does not fail: \<open>loadMethaneAssets\<close> returns both matrices, the inverse's
  scale coefficient \<open>1 / sx\<close> (\<open>1 / sy\<close>) is an infinity, and its offset coefficient
  \<open>-gx / sx\<close> (\<open>-gy / sy\<close>) is an infinity, or NaN when \<open>gx\<close> (\<open>gy\<close>) is zero as well.
\<close>

theorem degenerate_not_detected:
  assumes "ModelPixelScale fd = Some [Number sx, Number sy, sz]"
    and "ModelTiepoint fd = Some [i, j, k, Number gx, Number gy, gz]"
    and "num_val gx = Some rgx" "num_val gy = Some rgy"
    and "num_val sx = Some rsx" "num_val sy = Some rsy"
  shows "\<exists>pixelToGPS a b c d e f.
           loadMethaneAssets fd = Inr (pixelToGPS, map Number [a, b, c, d, e, f]) \<and>
           (rsx = 0 \<longrightarrow> is_inf b \<and> (if rgx = 0 then a = NaN else is_inf a)) \<and>
           (rsy = 0 \<longrightarrow> is_inf f \<and> (if rgy = 0 then d = NaN else is_inf d))"
proof -
  have zx: "rsx = 0 \<Longrightarrow> is_zero sx" and zy: "rsy = 0 \<Longrightarrow> is_zero (js_neg sy)"
    using assms(5,6) by (cases sx; cases sy; auto)+
  have ngx: "num_val (js_neg gx) = Some (- rgx)" and ngy: "num_val (js_neg gy) = Some (- rgy)"
    using assms(3,4) by (simp_all add: num_val_neg)
  have one: "num_val (Num 1) = Some 1"
    by simp
  have "loadMethaneAssets fd =
      Inr ([Number gx, Number sx, Number (Num 0), Number gy, Number (Num 0),
            Number (js_neg sy)],
           map Number [js_div (js_neg gx) sx, js_div (Num 1) sx, Num 0,
            js_div (js_neg gy) (js_neg sy), Num 0, js_div (Num 1) (js_neg sy)])"
    by (simp add: loadMethaneAssets_def assms(1,2) elem_at_def)
  moreover have "rsx = 0 \<longrightarrow> is_inf (js_div (Num 1) sx) \<and>
      (if rgx = 0 then js_div (js_neg gx) sx = NaN else is_inf (js_div (js_neg gx) sx))"
    using zx by (auto simp: div_by_zero [OF ngx] div_by_zero [OF one] is_inf_signed_inf)
  moreover have "rsy = 0 \<longrightarrow> is_inf (js_div (Num 1) (js_neg sy)) \<and>
      (if rgy = 0 then js_div (js_neg gy) (js_neg sy) = NaN
       else is_inf (js_div (js_neg gy) (js_neg sy)))"
    using zy by (auto simp: div_by_zero [OF ngy] div_by_zero [OF one] is_inf_signed_inf)
  ultimately show ?thesis
    by blast
qed

theorem degenerate_not_detected_witness:
  "\<exists>pixelToGPS a b c d e f.
     loadMethaneAssets zero_scale_directory = Inr (pixelToGPS, map Number [a, b, c, d, e, f]) \<and>
     is_inf b \<and> is_inf a"
  using degenerate_not_detected [of zero_scale_directory "Num 0" "Num 0.01" "Number (Num 0)"
     "Number (Num 0)" "Number (Num 0)" "Number (Num 0)" "Num (- 100)" "Num 40"
     "Number (Num 0)" "- 100" 40 0 "0.01"]
  by (simp add: zero_scale_directory_def)

text \<open>
  C8 as stated fails: a file without the pixel-scale tag, and a file whose pixel-scale
  tag has one value instead of three, both end in the language's TypeError, not in
  \<open>InvalidMetadata\<close>.
\<close>

theorem invalid_metadata_counterexample:
  "loadMethaneAssets_promise no_scale_image = Inl TypeError \<and>
   loadMethaneAssets_promise single_scale_image = Inl TypeError"
  by (simp add: no_scale_image_def single_scale_image_def loadMethaneAssets_promise_def
        loadMethaneAssets_def)

text \<open>
  C8, amended. The tags are not validated and no \<open>InvalidMetadata\<close> error exists. When
  either tag is absent or is a single value, destructuring it throws a TypeError and
  the promise is rejected with it. When both tags are arrays, the two matrices are
  built from whatever elements are there (a missing element is read as \<open>undefined\<close>,
  further elements are ignored), and the promise is then rejected with the library's
  error if \<open>getBoundingBox\<close> throws and fulfilled otherwise.
\<close>

theorem tags_not_validated:
  "(PixelScaleTag img = Absent \<or> PixelScaleTag img = Scalar v \<or>
    TiepointTag img = Absent \<or> TiepointTag img = Scalar w \<longrightarrow>
      loadMethaneAssets_promise img = Inl TypeError) \<and>
   (PixelScaleTag img = Values s \<and> TiepointTag img = Values t \<longrightarrow>
      loadMethaneAssets_promise img =
        (case getBoundingBox img of
           Inl message \<Rightarrow> Inl (LibraryError message)
         | Inr box \<Rightarrow>
            Inr ([elem_at t 3, elem_at s 0, Number (Num 0), elem_at t 4, Number (Num 0),
                  Number (js_neg (ToNumber (elem_at s 1)))],
                 [Number (js_div (js_neg (ToNumber (elem_at t 3))) (ToNumber (elem_at s 0))),
                  Number (js_div (Num 1) (ToNumber (elem_at s 0))),
                  Number (Num 0),
                  Number (js_div (js_neg (ToNumber (elem_at t 4)))
                            (js_neg (ToNumber (elem_at s 1)))),
                  Number (Num 0),
                  Number (js_div (Num 1) (js_neg (ToNumber (elem_at s 1))))]))) \<and>
   loadMethaneAssets_promise img \<noteq> Inl InvalidMetadata"
proof (intro conjI impI)
  assume "PixelScaleTag img = Absent \<or> PixelScaleTag img = Scalar v \<or>
    TiepointTag img = Absent \<or> TiepointTag img = Scalar w"
  then show "loadMethaneAssets_promise img = Inl TypeError"
    by (auto simp: loadMethaneAssets_promise_def loadMethaneAssets_def split: option.splits)
next
  assume "PixelScaleTag img = Values s \<and> TiepointTag img = Values t"
  then show "loadMethaneAssets_promise img =
        (case getBoundingBox img of
           Inl message \<Rightarrow> Inl (LibraryError message)
         | Inr box \<Rightarrow>
            Inr ([elem_at t 3, elem_at s 0, Number (Num 0), elem_at t 4, Number (Num 0),
                  Number (js_neg (ToNumber (elem_at s 1)))],
                 [Number (js_div (js_neg (ToNumber (elem_at t 3))) (ToNumber (elem_at s 0))),
                  Number (js_div (Num 1) (ToNumber (elem_at s 0))),
                  Number (Num 0),
                  Number (js_div (js_neg (ToNumber (elem_at t 4)))
                            (js_neg (ToNumber (elem_at s 1)))),
                  Number (Num 0),
                  Number (js_div (Num 1) (js_neg (ToNumber (elem_at s 1))))]))"
    by (simp add: loadMethaneAssets_promise_def loadMethaneAssets_def Let_def
          split: sum.splits)
next
  show "loadMethaneAssets_promise img \<noteq> Inl InvalidMetadata"
    by (simp add: loadMethaneAssets_promise_def loadMethaneAssets_def Let_def
          split: option.splits sum.splits)
qed

theorem tags_not_validated_witness:
  "loadMethaneAssets_promise no_scale_image = Inl TypeError \<and>
   loadMethaneAssets_promise example_image =
     Inr ([Number (Num (- 100)), Number (Num 0.01), Number (Num 0),
           Number (Num 40), Number (Num 0), Number (Num (- 0.01))],
          [Number (Num 10000), Number (Num 100), Number (Num 0),
           Number (Num 4000), Number (Num 0), Number (Num (- 100))])"
  using tags_not_validated [of no_scale_image]
    tags_not_validated [of example_image _ _
      "[Number (Num 0.01), Number (Num 0.01), Number (Num 0)]"
      "[Number (Num 0), Number (Num 0), Number (Num 0),
        Number (Num (- 100)), Number (Num 40), Number (Num 0)]"]
  by (simp add: no_scale_image_def example_image_def elem_at_def js_div_def sign_xor_def)

section \<open>The renderer's pixel ratio and render target\<close>

lemma Math_min_finite: "Math_min (Num r) (Num 2) = Num (min r 2)"
  by (simp add: Math_min_def min_def)

text \<open>
  C5. For every device pixel ratio, the ratio handed to the renderer is
  \<open>Math.min(ratio, 2)\<close>, in the constructor (which always completes) and in every call
  of \<open>onResize\<close>; for a finite ratio \<open>r\<close> that is the number \<open>min r 2\<close>.
\<close>

theorem pixel_ratio_clamp:
  "(\<exists>s. constructor w h v = Inr s \<and> pixelRatio (renderer s) = Math_min v (Num 2)) \<and>
   pixelRatio (renderer (onResize iw ih s0)) = Math_min (device_pixelRatio s0) (Num 2) \<and>
   Math_min (Num r) (Num 2) = Num (min r 2)"
  by (simp add: constructor_def onResize_def setPixelRatio_def setSize_def Let_def render_def
        setGeometry_def generateTexture_def setLights_def renderUI_def setup_params_def
        loadAssets_def render_scene_def clear_def setRenderTarget_def getRenderTarget_def
        setResize_def Math_min_finite split: prod.splits)

text \<open>
  C9. When \<open>generateTexture\<close> returns, the renderer's active render target is the one
  that was bound when it was called, in the current file (which saves the binding,
  binds the offscreen target, draws and restores) and in the earlier variant (which
  never rebinds); a draw of the main scene that follows goes to that same target.
\<close>

theorem render_target_restored:
  "currentRenderTarget (fst (generateTexture r)) = currentRenderTarget r \<and>
   currentRenderTarget (fst (generateTexture_unbound r)) = currentRenderTarget r \<and>
   draws (render_scene objs (fst (generateTexture r))) =
     draws (fst (generateTexture r)) @ [(currentRenderTarget r, objs)]"
  by (simp add: generateTexture_def generateTexture_unbound_def Let_def render_scene_def
        clear_def setRenderTarget_def getRenderTarget_def)

section \<open>Layers and meshes\<close>

text \<open>Whether an object is drawn depends on the two mesh fields only.\<close>

lemma shown_meshes:
  "shown s =
     (\<lambda>n. case n of
        PlaneMesh \<Rightarrow> (case planeMesh s of Some m \<Rightarrow> visible m | None \<Rightarrow> False)
      | MethaneMesh \<Rightarrow> (case methaneMesh s of Some m \<Rightarrow> visible m | None \<Rightarrow> False)
      | _ \<Rightarrow> True)"
  by (rule ext) (simp split: node.splits)

text \<open>
  The constructor always completes; the scene then holds the camera, the light and the
  two meshes, both visible, and all four layer flags are set.
\<close>

lemma constructor_scene:
  "\<exists>s pm mm. constructor w h v = Inr s \<and>
     scene s = [Camera, AmbientLight, PlaneMesh, MethaneMesh] \<and>
     planeMesh s = Some pm \<and> methaneMesh s = Some mm \<and> visible pm \<and> visible mm \<and>
     layers s = \<lparr>earth = True, methane = True, cow = True, someCrop = True\<rparr>"
  by (simp add: constructor_def Let_def render_def
        setGeometry_def generateTexture_def setLights_def renderUI_def setup_params_def
        loadAssets_def setSize_def setPixelRatio_def setResize_def Mesh_def split: prod.splits)

lemma constructor_example: "constructor (Num 800) (Num 600) (Num 1) = Inr example_three"
  using constructor_scene [of "Num 800" "Num 600" "Num 1"]
  by (auto simp: example_three_def)

text \<open>
  The scale factors: \<open>renderUI\<close> registers each with the bounds 0.1 and 5, and
  \<open>setup_params\<close> stores 1; a tick of the render loop neither reads nor writes them.
\<close>

lemma scale_controls_registered:
  "gui (renderUI (s\<lparr>gui := []\<rparr>)) ! 0 =
     \<lparr>folder = ''Scale'', property = ''scaleX'', bounds = Some (0.1, 5)\<rparr> \<and>
   gui (renderUI (s\<lparr>gui := []\<rparr>)) ! 1 =
     \<lparr>folder = ''Scale'', property = ''scaleY'', bounds = Some (0.1, 5)\<rparr> \<and>
   gui (renderUI (s\<lparr>gui := []\<rparr>)) ! 2 =
     \<lparr>folder = ''Scale'', property = ''scaleZ'', bounds = Some (0.1, 5)\<rparr> \<and>
   scaleX (setup_params s) = Num 1 \<and> scaleY (setup_params s) = Num 1 \<and>
   scaleZ (setup_params s) = Num 1"
  by (simp add: renderUI_def setup_params_def)

lemma render_keeps_scale:
  "render s = Inr t \<Longrightarrow> scaleX t = scaleX s \<and> scaleY t = scaleY s \<and> scaleZ t = scaleZ s"
  by (auto simp: render_def Let_def split: option.splits)

text \<open>
  C3 as stated fails: four layers are declared, and the scene of the constructed object
  holds two meshes. With \<open>cow\<close> switched off and the other flags set, a tick leaves
  both meshes visible: no mesh carries the flag of \<open>cow\<close>.
\<close>

theorem one_mesh_per_layer_counterexample:
  "\<not> isl (render (example_three\<lparr>layers := cow_off\<rparr>)) \<and>
   scene_meshes (projr (render (example_three\<lparr>layers := cow_off\<rparr>)))
     = [PlaneMesh, MethaneMesh] \<and>
   length declared_layers = 4 \<and>
   map (shown (projr (render (example_three\<lparr>layers := cow_off\<rparr>)))) [PlaneMesh, MethaneMesh]
     = [True, True]"
proof -
  obtain s pm mm where s: "constructor (Num 800) (Num 600) (Num 1) = Inr s"
     "scene s = [Camera, AmbientLight, PlaneMesh, MethaneMesh]"
     "planeMesh s = Some pm" "methaneMesh s = Some mm"
    using constructor_scene by blast
  have "example_three = s"
    using s(1) by (simp add: example_three_def)
  then show ?thesis
    using s(2-4) by (simp add: render_def Let_def scene_meshes_def cow_off_def declared_layers_def)
qed

text \<open>
  C3, amended. The scene holds one mesh for each of the layers \<open>earth\<close> and \<open>methane\<close>
  (\<open>planeMesh\<close> and \<open>methaneMesh\<close>) and none for \<open>cow\<close> and \<open>someCrop\<close>. Once both
  meshes exist, each tick of the render loop sets the \<open>visible\<close> flag of \<open>planeMesh\<close>
  from \<open>layers.earth\<close> and that of \<open>methaneMesh\<close> from \<open>layers.methane\<close>; toggling
  \<open>earth\<close> or \<open>methane\<close> and ticking again updates the corresponding mesh and leaves
  the other as it was.
\<close>

theorem visibility_sync:
  "(\<exists>s. constructor w h v = Inr s \<and> scene_meshes s = [PlaneMesh, MethaneMesh] \<and>
        planeMesh s \<noteq> None \<and> methaneMesh s \<noteq> None) \<and>
   (planeMesh s \<noteq> None \<and> methaneMesh s \<noteq> None \<longrightarrow>
     (\<exists>t. render s = Inr t \<and> scene t = scene s \<and> layers t = layers s \<and>
          map_option visible (planeMesh t) = Some (earth (layers s)) \<and>
          map_option visible (methaneMesh t) = Some (methane (layers s)) \<and>
          (\<exists>t'. render (t\<lparr>layers := (layers t)\<lparr>earth := e\<rparr>\<rparr>) = Inr t' \<and>
                map_option visible (planeMesh t') = Some e \<and>
                methaneMesh t' = methaneMesh t) \<and>
          (\<exists>t'. render (t\<lparr>layers := (layers t)\<lparr>methane := m\<rparr>\<rparr>) = Inr t' \<and>
                map_option visible (methaneMesh t') = Some m \<and>
                planeMesh t' = planeMesh t)))"
proof (intro conjI impI)
  show "\<exists>s. constructor w h v = Inr s \<and> scene_meshes s = [PlaneMesh, MethaneMesh] \<and>
        planeMesh s \<noteq> None \<and> methaneMesh s \<noteq> None"
    using constructor_scene [of w h v] by (auto simp: scene_meshes_def)
next
  assume "planeMesh s \<noteq> None \<and> methaneMesh s \<noteq> None"
  then obtain pm mm where m: "planeMesh s = Some pm" "methaneMesh s = Some mm"
    by auto
  show "\<exists>t. render s = Inr t \<and> scene t = scene s \<and> layers t = layers s \<and>
          map_option visible (planeMesh t) = Some (earth (layers s)) \<and>
          map_option visible (methaneMesh t) = Some (methane (layers s)) \<and>
          (\<exists>t'. render (t\<lparr>layers := (layers t)\<lparr>earth := e\<rparr>\<rparr>) = Inr t' \<and>
                map_option visible (planeMesh t') = Some e \<and>
                methaneMesh t' = methaneMesh t) \<and>
          (\<exists>t'. render (t\<lparr>layers := (layers t)\<lparr>methane := m\<rparr>\<rparr>) = Inr t' \<and>
                map_option visible (methaneMesh t') = Some m \<and>
                planeMesh t' = planeMesh t)"
    using m by (simp add: render_def Let_def)
qed

theorem visibility_sync_witness:
  "\<exists>t. render (example_three\<lparr>layers := cow_off\<rparr>) = Inr t \<and>
       map_option visible (planeMesh t) = Some True \<and>
       map_option visible (methaneMesh t) = Some True \<and>
       (\<exists>t'. render (t\<lparr>layers := (layers t)\<lparr>methane := False\<rparr>\<rparr>) = Inr t' \<and>
             map_option visible (methaneMesh t') = Some False \<and>
             planeMesh t' = planeMesh t)"
proof -
  define x where "x = example_three\<lparr>layers := cow_off\<rparr>"
  obtain s pm mm where s: "constructor (Num 800) (Num 600) (Num 1) = Inr s"
     "planeMesh s = Some pm" "methaneMesh s = Some mm"
    using constructor_scene by blast
  have "example_three = s"
    using s(1) by (simp add: example_three_def)
  then have meshes: "planeMesh x \<noteq> None \<and> methaneMesh x \<noteq> None"
    using s(2,3) by (simp add: x_def)
  have flags: "earth (layers x) = True" "methane (layers x) = True"
    by (simp_all add: x_def cow_off_def)
  from visibility_sync [of "Num 800" "Num 600" "Num 1" x True False] meshes
  obtain t t' where
    "render x = Inr t"
    "map_option visible (planeMesh t) = Some (earth (layers x))"
    "map_option visible (methaneMesh t) = Some (methane (layers x))"
    "render (t\<lparr>layers := (layers t)\<lparr>methane := False\<rparr>\<rparr>) = Inr t'"
    "map_option visible (methaneMesh t') = Some False"
    "planeMesh t' = planeMesh t"
    by blast
  then have
    "render (example_three\<lparr>layers := cow_off\<rparr>) = Inr t"
    "map_option visible (planeMesh t) = Some True"
    "map_option visible (methaneMesh t) = Some True"
    "render (t\<lparr>layers := (layers t)\<lparr>methane := False\<rparr>\<rparr>) = Inr t'"
    "map_option visible (methaneMesh t') = Some False"
    "planeMesh t' = planeMesh t"
    by (simp_all only: flags) (simp_all only: x_def)
  then show ?thesis
    by blast
qed

text \<open>
  C10. The flags \<open>cow\<close> and \<open>someCrop\<close> have no effect on a tick of the render loop:
  run on a state that differs only in these two flags, the tick fails or succeeds
  alike, and on success the two results differ only in these two flags; in particular
  the meshes with their \<open>visible\<close> flags, the renderer with what it drew, and the count
  of scheduled frames are the same.
\<close>

theorem cow_someCrop_ignored:
  "render (s\<lparr>layers := (layers s)\<lparr>cow := c, someCrop := d\<rparr>\<rparr>) =
     map_sum id (\<lambda>t. t\<lparr>layers := (layers t)\<lparr>cow := c, someCrop := d\<rparr>\<rparr>) (render s) \<and>
   map_sum id (\<lambda>t. (planeMesh t, methaneMesh t, renderer t, animation_frames t))
       (render (s\<lparr>layers := (layers s)\<lparr>cow := c, someCrop := d\<rparr>\<rparr>)) =
     map_sum id (\<lambda>t. (planeMesh t, methaneMesh t, renderer t, animation_frames t)) (render s)"
  by (simp add: render_def Let_def shown_meshes split: option.splits)

end
